theory Spec2Isabelle
  imports Main
begin

section \<open>The font loader \<^verbatim>\<open>scripts/get-fonts.py\<close>\<close>

text \<open>
  The script reads a list of font sources, fetches each one through \<^verbatim>\<open>Downloader.download\<close>
  (a conditional fetch against two sidecar files, the content file and its
  \<^verbatim>\<open>.lastmod\<close> token file), runs the glyph builder on what it got and optionally deletes
  the sidecar files. The embedding threads an explicit state through the code: the files,
  the transport calls made, the log calls made and the tool invocations. What the script only
  asks of its surroundings (the HTTP server, the clock, the glyph builder, the zip reader, the
  URL parser) is a field of an environment record.
\<close>

subsection \<open>Data\<close>

text \<open>
  A regular file: its bytes and its modification time. The script uses a modification time
  only through \<^verbatim>\<open>str(...)\<close>, so the field holds that rendering.
\<close>

record regfile =
  bytes :: string
  mtime :: string

text \<open>The exceptions that can leave a function of the script.\<close>

datatype exn =
    FileNotFoundError string
  | FileExistsError string
  | ConnectionError
  | HTTPError nat
  | TypeError
  | AttributeError
  | CalledProcessError nat
  | BadZipFile
  | KeyError string

text \<open>\<^verbatim>\<open>class DownloadResult\<close>: \<^verbatim>\<open>None\<close> fields are \<open>None\<close>.\<close>

record DownloadResult =
  status_code :: nat
  content :: "string option"
  last_modified :: "string option"

text \<open>
  The \<^verbatim>\<open>headers\<close> dictionary handed to \<^verbatim>\<open>_download\<close>: keys with a value that may be
  \<^verbatim>\<open>None\<close>.
\<close>

type_synonym headers = "(string \<times> string option) list"

text \<open>What \<^verbatim>\<open>session.get\<close> yields: a connection failure or the final response.\<close>

record response =
  resp_status :: nat
  resp_content :: string
  resp_last_modified :: "string option"

datatype reply = ConnectionFailed | Reply response

text \<open>\<^verbatim>\<open>datetime.now()\<close>, and the stamp the system puts on a file written at that time.\<close>

record datetime =
  year :: nat
  month :: nat
  day :: nat
  hour :: nat
  minute :: nat
  second :: nat

record instant =
  wall :: datetime
  stamp :: string

text \<open>The command-line options (\<^verbatim>\<open>opts\<close>).\<close>

record opts =
  force :: bool
  no_update :: bool
  delete_cache :: bool
  config :: string
  data :: "string option"
  verbose :: bool
  quiet :: bool

text \<open>The parsed configuration: \<^verbatim>\<open>settings.fonts_dir\<close> and the sources in file order.\<close>

record archive =
  format :: string
  files :: "string list"

record source =
  name :: string
  url :: string
  archive :: "archive option"

record configuration =
  fonts_dir :: string
  sources :: "source list"

datatype level = DEBUG | INFO | WARNING | CRITICAL

text \<open>
  The surroundings. \<open>remote\<close> answers a GET for a URL with the header lines on the wire;
  \<open>clock\<close> gives the time of the \<open>n\<close>-th reading; \<open>tool\<close> is the exit code of the glyph
  builder for a command line and the files present; \<open>zip_namelist\<close> is the member list of a
  zip archive (\<open>None\<close> when the bytes are no archive); \<open>urlparse_path\<close> is
  \<^verbatim>\<open>urlparse(url).path\<close>.
\<close>

record env =
  remote :: "string \<Rightarrow> (string \<times> string) list \<Rightarrow> reply"
  clock :: "nat \<Rightarrow> instant"
  tool :: "string list \<Rightarrow> (string \<rightharpoonup> regfile) \<Rightarrow> nat"
  zip_namelist :: "string \<Rightarrow> string list option"
  urlparse_path :: "string \<Rightarrow> string"

text \<open>
  The state: the regular files, the number of clock readings so far, the calls of
  \<^verbatim>\<open>_download\<close> (URL and headers dictionary), the calls of \<^verbatim>\<open>logging\<close>, the command lines
  run, and the archive members extracted (member, directory).
\<close>

record state =
  fs :: "string \<rightharpoonup> regfile"
  ticks :: nat
  calls :: "(string \<times> headers) list"
  logged :: "(level \<times> string) list"
  tool_runs :: "string list list"
  extracted :: "(string \<times> string) list"

subsection \<open>Library functions\<close>

text \<open>Decimal rendering of a number, as \<^verbatim>\<open>str.format\<close> and \<^verbatim>\<open>strftime\<close> print it.\<close>

definition digit :: "nat \<Rightarrow> char" where
  "digit d = ''0123456789'' ! (d mod 10)"

function decimal :: "nat \<Rightarrow> string" where
  "decimal n = (if n < 10 then [digit n] else decimal (n div 10) @ [digit n])"
  by pat_completeness auto
termination
  by (relation "measure id") auto

declare decimal.simps [simp del]

definition pad2 :: "nat \<Rightarrow> string" where
  "pad2 n = [digit (n div 10), digit n]"

definition pad4 :: "nat \<Rightarrow> string" where
  "pad4 n = [digit (n div 1000), digit (n div 100), digit (n div 10), digit n]"

text \<open>
  \<^verbatim>\<open>strftime("%Y-%m-%d %H:%M:%S")\<close> on a date of the years 1000 to 9999.
\<close>

definition strftime :: "datetime \<Rightarrow> string" where
  "strftime t = pad4 (year t) @ ''-'' @ pad2 (month t) @ ''-'' @ pad2 (day t) @ '' ''
     @ pad2 (hour t) @ '':'' @ pad2 (minute t) @ '':'' @ pad2 (second t)"

text \<open>\<^verbatim>\<open>os.path.basename\<close> and \<^verbatim>\<open>os.path.join\<close> (two arguments) on POSIX paths.\<close>

definition basename :: "string \<Rightarrow> string" where
  "basename p = rev (takeWhile (\<lambda>c. c \<noteq> CHR ''/'') (rev p))"

definition path_join :: "string \<Rightarrow> string \<Rightarrow> string" where
  "path_join a b =
     (if b \<noteq> [] \<and> hd b = CHR ''/'' then b
      else if a = [] \<or> last a = CHR ''/'' then a @ b
      else a @ ''/'' @ b)"

text \<open>
  The header lines \<^verbatim>\<open>requests\<close> puts on the wire: the session's \<^verbatim>\<open>User-Agent\<close>, then the
  request's own headers, a key whose value is \<^verbatim>\<open>None\<close> being left out.
\<close>

definition wire_headers :: "headers \<Rightarrow> (string \<times> string) list" where
  "wire_headers h =
     (''User-Agent'', ''get-fonts.py/spirit'') #
     concat (map (\<lambda>(k, v). case v of None \<Rightarrow> [] | Some x \<Rightarrow> [(k, x)]) h)"

text \<open>\<^verbatim>\<open>response.raise_for_status()\<close> raises on the statuses 400 to 599.\<close>

definition raises_for_status :: "nat \<Rightarrow> bool" where
  "raises_for_status st = (400 \<le> st \<and> st < 600)"

subsection \<open>State operations\<close>

definition logging :: "level \<Rightarrow> string \<Rightarrow> state \<Rightarrow> state" where
  "logging l m s = s\<lparr>logged := logged s @ [(l, m)]\<rparr>"

text \<open>\<^verbatim>\<open>open(p, 'w')\<close> followed by \<^verbatim>\<open>write\<close>: the file is created or replaced.\<close>

definition write_file :: "env \<Rightarrow> string \<Rightarrow> string \<Rightarrow> state \<Rightarrow> state" where
  "write_file e p d s =
     s\<lparr>fs := (fs s)(p \<mapsto> \<lparr>bytes = d, mtime = stamp (clock e (ticks s))\<rparr>)\<rparr>"

text \<open>
  Directories are not files of the state: a directory is there when it is needed, unless
  a regular file sits at its path. \<open>below d p\<close> says that the path \<open>p\<close> lies in the
  directory \<open>d\<close>.
\<close>

definition below :: "string \<Rightarrow> string \<Rightarrow> bool" where
  "below d p =
     (d \<noteq> [] \<and>
      (let d' = (if last d = CHR ''/'' then d else d @ ''/'')
       in length d' < length p \<and> take (length d') p = d'))"

text \<open>
  \<^verbatim>\<open>shutil.rmtree(d, ignore_errors=True)\<close>: the files below \<open>d\<close> go; a regular file at
  \<open>d\<close> itself makes the call fail, which is ignored, and stays.
\<close>

definition rmtree :: "string \<Rightarrow> state \<Rightarrow> state" where
  "rmtree d s = s\<lparr>fs := (\<lambda>p. if below d p then None else fs s p)\<rparr>"

text \<open>
  \<^verbatim>\<open>os.makedirs(d, exist_ok=True)\<close>: raises when \<open>d\<close> is empty or a regular file; \<open>None\<close>
  is the normal return.
\<close>

definition makedirs :: "string \<Rightarrow> state \<Rightarrow> exn option" where
  "makedirs d s =
     (if d = [] then Some (FileNotFoundError d)
      else if fs s d \<noteq> None then Some (FileExistsError d)
      else None)"

text \<open>\<^verbatim>\<open>os.remove\<close>: raises when there is no such file.\<close>

definition os_remove :: "string \<Rightarrow> state \<Rightarrow> exn + state" where
  "os_remove p s =
     (case fs s p of
        None \<Rightarrow> Inl (FileNotFoundError p)
      | Some f \<Rightarrow> Inr (s\<lparr>fs := (fs s)(p := None)\<rparr>))"

text \<open>
  The level \<^verbatim>\<open>logging.basicConfig\<close> is given, and the log calls that reach the output.
\<close>

definition log_level :: "opts \<Rightarrow> level" where
  "log_level opt = (if verbose opt then DEBUG else if quiet opt then WARNING else INFO)"

fun severity :: "level \<Rightarrow> nat" where
  "severity DEBUG = 10"
| "severity INFO = 20"
| "severity WARNING = 30"
| "severity CRITICAL = 50"

definition emitted :: "opts \<Rightarrow> state \<Rightarrow> (level \<times> string) list" where
  "emitted opt s = filter (\<lambda>(l, m). severity (log_level opt) \<le> severity l) (logged s)"

subsection \<open>\<^verbatim>\<open>Downloader._download\<close>\<close>

definition read_source :: "string \<Rightarrow> state \<Rightarrow> exn + DownloadResult" where
  "read_source filename s =
     (case fs s filename of
        None \<Rightarrow> Inl (FileNotFoundError filename)
      | Some f \<Rightarrow>
          Inr \<lparr>status_code = 200, content = Some (bytes f), last_modified = Some (mtime f)\<rparr>)"

definition priv_download :: "env \<Rightarrow> string \<Rightarrow> headers \<Rightarrow> state \<Rightarrow> (exn + DownloadResult) \<times> state" where
  "priv_download e u h s0 =
     (let s = s0\<lparr>calls := calls s0 @ [(u, h)]\<rparr> in
      if take 7 u = ''file://'' then
        (let filename = drop 7 u in
         if h \<noteq> [] \<and> map_of h ''If-Modified-Since'' \<noteq> None then
           (case fs s filename of
              None \<Rightarrow> (Inl (FileNotFoundError filename), s)
            | Some f \<Rightarrow>
                if map_of h ''If-Modified-Since'' = Some (Some (mtime f))
                then (Inr \<lparr>status_code = 304, content = None, last_modified = None\<rparr>, s)
                else (read_source filename s, s))
         else (read_source filename s, s))
      else
        (case remote e u (wire_headers h) of
           ConnectionFailed \<Rightarrow> (Inl ConnectionError, s)
         | Reply r \<Rightarrow>
             if raises_for_status (resp_status r) then (Inl (HTTPError (resp_status r)), s)
             else (Inr \<lparr>status_code = resp_status r, content = Some (resp_content r),
                        last_modified = resp_last_modified r\<rparr>, s)))"

subsection \<open>\<^verbatim>\<open>Downloader.download\<close>\<close>

text \<open>Lines 59 to 67: the candidate cache entry and the stored token.\<close>

definition load_cache :: "string \<Rightarrow> string \<Rightarrow> state \<Rightarrow> DownloadResult option \<times> string option" where
  "load_cache filename filename_lastmod s =
     (case (fs s filename, fs s filename_lastmod) of
        (Some f, Some t) \<Rightarrow>
          (Some \<lparr>status_code = 200, content = Some (bytes f), last_modified = Some (bytes t)\<rparr>,
           Some (bytes t))
      | _ \<Rightarrow> (None, None))"

text \<open>Lines 77 to 81: no header when forcing, otherwise the stored token (or \<^verbatim>\<open>None\<close>).\<close>

definition request_headers :: "opts \<Rightarrow> string option \<Rightarrow> headers" where
  "request_headers opt lastmod_cache =
     (if force opt then [] else [(''If-Modified-Since'', lastmod_cache)])"

definition download ::
  "env \<Rightarrow> string \<Rightarrow> string \<Rightarrow> opts \<Rightarrow> string \<Rightarrow> string \<Rightarrow> string \<Rightarrow> state
     \<Rightarrow> (exn + DownloadResult option) \<times> state" where
  "download e u nm opt dir filename filename_lastmod s =
     (let (cached_data, lastmod_cache) = load_cache filename filename_lastmod s in
      if no_update opt \<and> cached_data \<noteq> None then (Inr cached_data, s)
      else
        (let h = request_headers opt lastmod_cache in
         case priv_download e u h s of
           (Inl x, s1) \<Rightarrow> (Inl x, s1)
         | (Inr rsp, s1) \<Rightarrow>
             if status_code rsp = 200 then
               (case content rsp of
                  None \<Rightarrow> (Inl TypeError, s1)
                | Some c \<Rightarrow>
                    (let s2 = logging INFO
                                (''  Download complete ('' @ decimal (length c) @ '' bytes)'') s1;
                         s3 = write_file e filename c s2;
                         s4 = write_file e filename_lastmod
                                (strftime (wall (clock e (ticks s3)))) s3
                     in (Inr (Some rsp), s4\<lparr>ticks := Suc (ticks s4)\<rparr>)))
             else if status_code rsp = 304 then (Inr cached_data, s1)
             else
               (Inr None,
                logging CRITICAL (''  Content '' @ nm @ '' was not downloaded'')
                  (logging CRITICAL
                     (''  Unexpected response code ('' @ decimal (status_code rsp)) s1))))"

subsection \<open>\<^verbatim>\<open>main\<close>\<close>

text \<open>Lines 143 to 145: \<^verbatim>\<open>--force\<close> overrides \<^verbatim>\<open>--no-update\<close>.\<close>

definition override_flags :: "opts \<Rightarrow> state \<Rightarrow> opts \<times> state" where
  "override_flags opt s =
     (if force opt \<and> no_update opt
      then (opt\<lparr>no_update := False\<rparr>,
            logging WARNING ''Force (-f) flag overrides --no-update flag'' s)
      else (opt, s))"

text \<open>
  Lines 183 to 189: both removals are in one \<^verbatim>\<open>try\<close>, and only
  \<^verbatim>\<open>FileNotFoundError\<close> is caught.
\<close>

definition remove_cache :: "string \<Rightarrow> string \<Rightarrow> state \<Rightarrow> exn option \<times> state" where
  "remove_cache filename filename_lastmod s =
     (case os_remove filename s of
        Inl (FileNotFoundError p) \<Rightarrow> (None, s)
      | Inl x \<Rightarrow> (Some x, s)
      | Inr s1 \<Rightarrow>
          (case os_remove filename_lastmod s1 of
             Inl (FileNotFoundError p) \<Rightarrow> (None, s1)
           | Inl x \<Rightarrow> (Some x, s1)
           | Inr s2 \<Rightarrow> (None, logging INFO ''  Cache deleted'' s2)))"

text \<open>Lines 178 and 179: the members are extracted in order; a missing member raises.\<close>

fun extract_all :: "string list \<Rightarrow> string list \<Rightarrow> string \<Rightarrow> state \<Rightarrow> exn option \<times> state" where
  "extract_all names [] workingdir s = (None, s)"
| "extract_all names (m # ms) workingdir s =
     (if m \<in> set names
      then extract_all names ms workingdir (s\<lparr>extracted := extracted s @ [(m, workingdir)]\<rparr>)
      else (Some (KeyError m), s))"

text \<open>
  Lines 175 to 179. \<^verbatim>\<open>io.BytesIO(None)\<close> is the empty buffer, which is no archive.
\<close>

definition unpack :: "env \<Rightarrow> source \<Rightarrow> DownloadResult option \<Rightarrow> string \<Rightarrow> state \<Rightarrow> exn option \<times> state" where
  "unpack e src dl workingdir s =
     (case archive src of
        None \<Rightarrow> (None, s)
      | Some a \<Rightarrow>
          if format a = ''zip'' then
            (let s1 = logging INFO ''  Decompressing file'' s in
             case dl of
               None \<Rightarrow> (Some AttributeError, s1)
             | Some d \<Rightarrow>
                 (case content d of
                    None \<Rightarrow> (Some BadZipFile, s1)
                  | Some c \<Rightarrow>
                      (case zip_namelist e c of
                         None \<Rightarrow> (Some BadZipFile, s1)
                       | Some names \<Rightarrow> extract_all names (files a) workingdir s1)))
          else (None, s))"

text \<open>
  Lines 172 to 189: the glyph builder is run on the content file, the archive is unpacked,
  the cache is deleted. What the builder and the unpacking put into the working directory
  is recorded as the command run and the members extracted, not as files.
\<close>

definition build_glyphs ::
  "env \<Rightarrow> opts \<Rightarrow> string \<Rightarrow> source \<Rightarrow> string \<Rightarrow> string \<Rightarrow> DownloadResult option \<Rightarrow> state
     \<Rightarrow> exn option \<times> state" where
  "build_glyphs e opt dir src filename filename_lastmod dl s =
     (let workingdir = path_join dir (name src);
          command = [''npx'', ''-p'', ''fontnik'', ''build-glyphs'', filename, workingdir];
          s1 = s\<lparr>tool_runs := tool_runs s @ [command]\<rparr>
      in if tool e command (fs s1) \<noteq> 0
         then (Some (CalledProcessError (tool e command (fs s1))), s1)
         else
           (case unpack e src dl workingdir s1 of
              (Some x, s2) \<Rightarrow> (Some x, s2)
            | (None, s2) \<Rightarrow>
                (let s3 = logging INFO ''  Import complete'' s2 in
                 if delete_cache opt then remove_cache filename filename_lastmod s3
                 else (None, s3))))"

text \<open>
  Lines 168 to 189, the conversion of one source: the working directory is cleared and made
  (lines 169 and 170), then the glyphs are built.
\<close>

definition convert ::
  "env \<Rightarrow> opts \<Rightarrow> string \<Rightarrow> source \<Rightarrow> string \<Rightarrow> string \<Rightarrow> DownloadResult option \<Rightarrow> state
     \<Rightarrow> exn option \<times> state" where
  "convert e opt dir src filename filename_lastmod dl s =
     (let workingdir = path_join dir (name src);
          s0 = rmtree workingdir s
      in case makedirs workingdir s0 of
           Some x \<Rightarrow> (Some x, s0)
         | None \<Rightarrow> build_glyphs e opt dir src filename filename_lastmod dl s0)"

text \<open>Lines 157 and 158: the two sidecar paths of a source.\<close>

definition content_path :: "env \<Rightarrow> string \<Rightarrow> source \<Rightarrow> string" where
  "content_path e dir src = path_join dir (basename (urlparse_path e (url src)))"

definition token_path :: "env \<Rightarrow> string \<Rightarrow> source \<Rightarrow> string" where
  "token_path e dir src = content_path e dir src @ ''.lastmod''"

text \<open>Lines 157 to 189, the body of the loop; \<open>None\<close> is a normal end of the iteration.\<close>

definition process_source :: "env \<Rightarrow> opts \<Rightarrow> string \<Rightarrow> source \<Rightarrow> state \<Rightarrow> exn option \<times> state" where
  "process_source e opt dir src s =
     (let filename = content_path e dir src;
          filename_lastmod = token_path e dir src
      in case download e (url src) (name src) opt dir filename filename_lastmod s of
           (Inl x, s1) \<Rightarrow> (Some x, s1)
         | (Inr dl, s1) \<Rightarrow>
             if dl = None \<and> \<not> force opt
             then (None, logging INFO (''  '' @ name src @ '' did not require updating'') s1)
             else convert e opt dir src filename filename_lastmod dl s1)"

text \<open>The loop of line 156: an exception ends the run.\<close>

fun process_sources :: "env \<Rightarrow> opts \<Rightarrow> string \<Rightarrow> source list \<Rightarrow> state \<Rightarrow> exn option \<times> state" where
  "process_sources e opt dir [] s = (None, s)"
| "process_sources e opt dir (src # rest) s =
     (case process_source e opt dir src s of
        (Some x, s1) \<Rightarrow> (Some x, s1)
      | (None, s1) \<Rightarrow> process_sources e opt dir rest s1)"

text \<open>\<^verbatim>\<open>opts.data or config["settings"]["fonts_dir"]\<close>: an empty string counts as absent.\<close>

definition target_dir :: "opts \<Rightarrow> configuration \<Rightarrow> string" where
  "target_dir opt cfg =
     (case data opt of
        None \<Rightarrow> fonts_dir cfg
      | Some d \<Rightarrow> if d = [] then fonts_dir cfg else d)"

text \<open>Lines 147 to 189: the target directory is made (line 152), then the loop runs.\<close>

definition load_fonts :: "env \<Rightarrow> opts \<Rightarrow> configuration \<Rightarrow> state \<Rightarrow> exn option \<times> state" where
  "load_fonts e opt cfg s =
     (let s2 = logging INFO ''Starting load of fonts'' s;
          dir = target_dir opt cfg
      in case makedirs dir s2 of
           Some x \<Rightarrow> (Some x, s2)
         | None \<Rightarrow> process_sources e opt dir (sources cfg) s2)"

definition main :: "env \<Rightarrow> opts \<Rightarrow> configuration \<Rightarrow> state \<Rightarrow> exn option \<times> state" where
  "main e opt0 cfg s0 =
     (let (opt, s1) = override_flags opt0 s0
      in load_fonts e opt cfg s1)"

subsection \<open>Example surroundings\<close>

text \<open>
  A clock, a URL parser for the two URL shapes of the examples, a glyph builder that always
  succeeds, and three servers: one that answers every request with the same status, one that
  honours the validator it hands out, and one that has nothing to send.
\<close>

definition example_clock :: "nat \<Rightarrow> instant" where
  "example_clock n =
     \<lparr>wall = \<lparr>year = 2024, month = 1, day = 2, hour = 3, minute = 4, second = 5 + n\<rparr>,
      stamp = ''1704164645.0''\<rparr>"

definition example_path :: "string \<Rightarrow> string" where
  "example_path u =
     (if take 7 u = ''file://'' then drop 7 u
      else dropWhile (\<lambda>c. c \<noteq> CHR ''/'') (drop 8 u))"

definition example_env :: "(string \<Rightarrow> (string \<times> string) list \<Rightarrow> reply) \<Rightarrow> env" where
  "example_env srv =
     \<lparr>remote = srv, clock = example_clock, tool = (\<lambda>c f. 0), zip_namelist = (\<lambda>b. None),
      urlparse_path = example_path\<rparr>"

definition validator :: string where
  "validator = ''Mon, 01 Jan 2024 00:00:00 GMT''"

definition fixed_server :: "nat \<Rightarrow> string \<Rightarrow> (string \<times> string) list \<Rightarrow> reply" where
  "fixed_server st u h =
     Reply \<lparr>resp_status = st, resp_content = ''B'', resp_last_modified = Some validator\<rparr>"

definition validating_server :: "string \<Rightarrow> string \<Rightarrow> (string \<times> string) list \<Rightarrow> reply" where
  "validating_server tok u h =
     (if map_of h ''If-Modified-Since'' = Some tok
      then Reply \<lparr>resp_status = 304, resp_content = [], resp_last_modified = Some validator\<rparr>
      else Reply \<lparr>resp_status = 200, resp_content = ''B'', resp_last_modified = Some validator\<rparr>)"

definition default_opts :: opts where
  "default_opts =
     \<lparr>force = False, no_update = False, delete_cache = False, config = ''fonts.yml'',
      data = None, verbose = False, quiet = False\<rparr>"

definition roboto :: source where
  "roboto = \<lparr>name = ''roboto'', url = ''https://example.test/Roboto.ttf'', archive = None\<rparr>"

definition lato :: source where
  "lato = \<lparr>name = ''lato'', url = ''https://example.test/Lato.ttf'', archive = None\<rparr>"

definition example_config :: configuration where
  "example_config = \<lparr>fonts_dir = ''fonts'', sources = [roboto, lato]\<rparr>"

definition empty_state :: state where
  "empty_state =
     \<lparr>fs = Map.empty, ticks = 0, calls = [], logged = [], tool_runs = [], extracted = []\<rparr>"

text \<open>The state a run leaves behind when it stored the content \<open>c\<close> under the token \<open>t\<close>.\<close>

definition cached_state :: "string \<Rightarrow> string \<Rightarrow> state" where
  "cached_state c t =
     empty_state\<lparr>fs :=
       [''fonts/Roboto.ttf'' \<mapsto> \<lparr>bytes = c, mtime = ''1704164645.0''\<rparr>,
        ''fonts/Roboto.ttf.lastmod'' \<mapsto> \<lparr>bytes = t, mtime = ''1704164645.0''\<rparr>]\<rparr>"

text \<open>A font on the local disk, with its modification time.\<close>

definition local_state :: state where
  "local_state =
     empty_state\<lparr>fs := [''/srv/Roboto.ttf'' \<mapsto> \<lparr>bytes = ''L'', mtime = ''1700000000.5''\<rparr>]\<rparr>"

definition local_config :: configuration where
  "local_config =
     \<lparr>fonts_dir = ''fonts'',
      sources = [\<lparr>name = ''roboto'', url = ''file:///srv/Roboto.ttf'', archive = None\<rparr>]\<rparr>"

text \<open>The same font with a cache entry whose token is the modification time of the font.\<close>

definition local_cached_state :: state where
  "local_cached_state =
     empty_state\<lparr>fs :=
       [''/srv/Roboto.ttf'' \<mapsto> \<lparr>bytes = ''L'', mtime = ''1700000000.5''\<rparr>,
        ''fonts/Roboto.ttf'' \<mapsto> \<lparr>bytes = ''L'', mtime = ''1704164645.0''\<rparr>,
        ''fonts/Roboto.ttf.lastmod'' \<mapsto> \<lparr>bytes = ''1700000000.5'', mtime = ''1704164645.0''\<rparr>]\<rparr>"

text \<open>A state with the token file of the first source only, and a configuration of that source.\<close>

definition token_only_state :: state where
  "token_only_state =
     empty_state\<lparr>fs := [''fonts/Roboto.ttf.lastmod'' \<mapsto> \<lparr>bytes = ''T'', mtime = ''1.0''\<rparr>]\<rparr>"

definition single_config :: configuration where
  "single_config = \<lparr>fonts_dir = ''fonts'', sources = [roboto]\<rparr>"

text \<open>A state with the content file of the first source only.\<close>

definition half_cached_state :: state where
  "half_cached_state =
     empty_state\<lparr>fs := [''fonts/Roboto.ttf'' \<mapsto> \<lparr>bytes = ''B'', mtime = ''1704164645.0''\<rparr>]\<rparr>"

subsection \<open>Log entries in front\<close>

text \<open>The state with the entries \<open>L\<close> put in front of its log; used to compare two runs.\<close>

definition prelog :: "(level \<times> string) list \<Rightarrow> state \<Rightarrow> state" where
  "prelog L s = s\<lparr>logged := L @ logged s\<rparr>"

section \<open>Properties\<close>

lemmas example_defs =
  example_env_def example_clock_def example_path_def fixed_server_def validating_server_def
  default_opts_def roboto_def lato_def example_config_def empty_state_def cached_state_def
  local_state_def local_config_def local_cached_state_def token_only_state_def
  single_config_def half_cached_state_def validator_def

lemmas path_defs = content_path_def token_path_def basename_def path_join_def

lemmas run_defs =
  process_source_def convert_def build_glyphs_def rmtree_def makedirs_def below_def unpack_def
  remove_cache_def os_remove_def

lemmas main_defs = main_def load_fonts_def override_flags_def target_dir_def

lemmas step_defs =
  download_def request_headers_def load_cache_def priv_download_def read_source_def wire_headers_def
  raises_for_status_def logging_def write_file_def strftime_def pad2_def pad4_def digit_def


subsection \<open>How the steps change the state\<close>

text \<open>\<^verbatim>\<open>_download\<close> changes nothing but the record of its own call.\<close>

lemma priv_download_state: "snd (priv_download e u h s) = s\<lparr>calls := calls s @ [(u, h)]\<rparr>"
  by (simp add: priv_download_def Let_def read_source_def split: option.splits reply.splits)

lemma priv_download_remote:
  "take 7 u \<noteq> ''file://'' \<Longrightarrow> remote e u (wire_headers h) = Reply r \<Longrightarrow>
   priv_download e u h s =
     (if raises_for_status (resp_status r) then Inl (HTTPError (resp_status r))
      else Inr \<lparr>status_code = resp_status r, content = Some (resp_content r),
                last_modified = resp_last_modified r\<rparr>,
      s\<lparr>calls := calls s @ [(u, h)]\<rparr>)"
  by (simp add: priv_download_def Let_def)




lemma download_skip:
  assumes "load_cache fn fnl s = (cd, tok)" and "no_update opt" and "cd \<noteq> None"
  shows "download e u nm opt dir fn fnl s = (Inr cd, s)"
  using assms by (simp add: download_def)

lemma download_fetch:
  assumes "load_cache fn fnl s = (cd, tok)" and "\<not> (no_update opt \<and> cd \<noteq> None)"
    and "priv_download e u (request_headers opt tok) s = (r, s1)"
  shows "download e u nm opt dir fn fnl s =
     (case r of
        Inl x \<Rightarrow> (Inl x, s1)
      | Inr rsp \<Rightarrow>
          if status_code rsp = 200 then
            (case content rsp of
               None \<Rightarrow> (Inl TypeError, s1)
             | Some c \<Rightarrow>
                 (Inr (Some rsp),
                  s1\<lparr>logged := logged s1 @
                        [(INFO, ''  Download complete ('' @ decimal (length c) @ '' bytes)'')],
                      fs := (fs s1)
                        (fn \<mapsto> \<lparr>bytes = c, mtime = stamp (clock e (ticks s1))\<rparr>,
                         fnl \<mapsto> \<lparr>bytes = strftime (wall (clock e (ticks s1))),
                                   mtime = stamp (clock e (ticks s1))\<rparr>),
                      ticks := Suc (ticks s1)\<rparr>))
          else if status_code rsp = 304 then (Inr cd, s1)
          else
            (Inr None,
             s1\<lparr>logged := logged s1 @
                   [(CRITICAL, ''  Unexpected response code ('' @ decimal (status_code rsp)),
                    (CRITICAL, ''  Content '' @ nm @ '' was not downloaded'')]\<rparr>))"
  using assms
  by (auto simp add: download_def Let_def logging_def write_file_def split: sum.splits option.splits)









text \<open>
  A source named like the file of its URL has the content file at the path of its working
  directory: clearing leaves the file, making the directory raises, and no command is run.
\<close>

lemma clashing_working_directory_raises:
  "fst (process_source (example_env (validating_server validator)) default_opts ''fonts''
          \<lparr>name = ''Roboto.ttf'', url = ''https://example.test/Roboto.ttf'', archive = None\<rparr>
          (cached_state ''B'' validator))
     = Some (FileExistsError ''fonts/Roboto.ttf'')
   \<and> tool_runs (snd (process_source (example_env (validating_server validator)) default_opts
          ''fonts''
          \<lparr>name = ''Roboto.ttf'', url = ''https://example.test/Roboto.ttf'', archive = None\<rparr>
          (cached_state ''B'' validator)))
     = []
   \<and> fs (snd (process_source (example_env (validating_server validator)) default_opts
          ''fonts''
          \<lparr>name = ''Roboto.ttf'', url = ''https://example.test/Roboto.ttf'', archive = None\<rparr>
          (cached_state ''B'' validator))) ''fonts/Roboto.ttf''
     = Some \<lparr>bytes = ''B'', mtime = ''1704164645.0''\<rparr>"
  by (simp add: run_defs path_defs step_defs example_defs Let_def)

text \<open>No step reads the log: entries in front of it stay in front and change nothing else.\<close>

lemma prelog_simps:
  "fs (prelog L s) = fs s" "ticks (prelog L s) = ticks s" "calls (prelog L s) = calls s"
  "tool_runs (prelog L s) = tool_runs s" "extracted (prelog L s) = extracted s"
  "logged (prelog L s) = L @ logged s"
  by (simp_all add: prelog_def)

lemma logging_prelog: "logging l m (prelog L s) = prelog L (logging l m s)"
  by (simp add: logging_def prelog_def)

lemma write_file_prelog: "write_file e p d (prelog L s) = prelog L (write_file e p d s)"
  by (simp add: write_file_def prelog_def)

lemma priv_download_prelog:
  "priv_download e u h (prelog L s) = (fst (priv_download e u h s), prelog L (snd (priv_download e u h s)))"
  by (simp add: priv_download_def Let_def read_source_def prelog_def split: option.splits reply.splits)

lemma download_prelog:
  "download e u nm opt dir fn fnl (prelog L s) =
     (fst (download e u nm opt dir fn fnl s), prelog L (snd (download e u nm opt dir fn fnl s)))"
proof -
  obtain cd tok where lc: "load_cache fn fnl s = (cd, tok)"
    by (cases "load_cache fn fnl s")
  have lc': "load_cache fn fnl (prelog L s) = (cd, tok)"
    using lc by (simp add: load_cache_def prelog_simps)
  obtain r s1 where p: "priv_download e u (request_headers opt tok) s = (r, s1)"
    by (cases "priv_download e u (request_headers opt tok) s")
  have p': "priv_download e u (request_headers opt tok) (prelog L s) = (r, prelog L s1)"
    using p by (simp add: priv_download_prelog)
  have t: "(prelog L s4)\<lparr>ticks := Suc (ticks s4)\<rparr> = prelog L (s4\<lparr>ticks := Suc (ticks s4)\<rparr>)" for s4
    by (simp add: prelog_def)
  show ?thesis
  proof (cases "no_update opt \<and> cd \<noteq> None")
    case True
    then show ?thesis by (simp add: download_def lc lc')
  next
    case False
    show ?thesis
    proof (cases r)
      case (Inl x)
      with False show ?thesis by (auto simp add: download_def lc lc' p p')
    next
      case (Inr rsp)
      with False show ?thesis
        by (cases "content rsp")
           (auto simp add: download_def lc lc' p p' Let_def logging_prelog write_file_prelog
              prelog_simps t)
    qed
  qed
qed

lemma remove_cache_prelog:
  "remove_cache a b (prelog L s) = (fst (remove_cache a b s), prelog L (snd (remove_cache a b s)))"
  by (simp add: remove_cache_def os_remove_def logging_def prelog_def split: option.splits)

lemma extract_all_prelog:
  "extract_all ns ms w (prelog L s) = (fst (extract_all ns ms w s), prelog L (snd (extract_all ns ms w s)))"
proof (induction ms arbitrary: s)
  case Nil
  then show ?case by simp
next
  case (Cons m ms)
  have "(prelog L s)\<lparr>extracted := extracted (prelog L s) @ [(m, w)]\<rparr>
          = prelog L (s\<lparr>extracted := extracted s @ [(m, w)]\<rparr>)"
    by (simp add: prelog_def)
  with Cons show ?case by simp
qed

lemma unpack_prelog:
  "unpack e src dl w (prelog L s) = (fst (unpack e src dl w s), prelog L (snd (unpack e src dl w s)))"
  by (simp add: unpack_def Let_def logging_prelog extract_all_prelog split: option.splits)

lemma build_glyphs_prelog:
  "build_glyphs e opt dir src fn fnl dl (prelog L s) =
     (fst (build_glyphs e opt dir src fn fnl dl s), prelog L (snd (build_glyphs e opt dir src fn fnl dl s)))"
proof -
  let ?w = "path_join dir (name src)"
  let ?c = "[''npx'', ''-p'', ''fontnik'', ''build-glyphs'', fn, ?w]"
  let ?s1 = "s\<lparr>tool_runs := tool_runs s @ [?c]\<rparr>"
  have t: "(prelog L s)\<lparr>tool_runs := tool_runs (prelog L s) @ [?c]\<rparr> = prelog L ?s1"
    by (simp add: prelog_def)
  obtain r s2 where u: "unpack e src dl ?w ?s1 = (r, s2)"
    by (cases "unpack e src dl ?w ?s1")
  have u': "unpack e src dl ?w (prelog L ?s1) = (r, prelog L s2)"
    using u by (simp add: unpack_prelog)
  have f: "fs (prelog L ?s1) = fs ?s1"
    by (simp add: prelog_simps)
  show ?thesis
  proof (cases "tool e ?c (fs ?s1) = 0")
    case False
    then show ?thesis
      unfolding build_glyphs_def Let_def t f by simp
  next
    case True
    show ?thesis
    proof (cases r)
      case None
      with True show ?thesis
        unfolding build_glyphs_def Let_def t f u u'
        by (simp add: logging_prelog remove_cache_prelog)
    next
      case (Some x)
      with True show ?thesis
        unfolding build_glyphs_def Let_def t f u u' by simp
    qed
  qed
qed

lemma rmtree_prelog: "rmtree d (prelog L s) = prelog L (rmtree d s)"
  by (simp add: rmtree_def prelog_def cong: if_cong)

lemma makedirs_prelog: "makedirs d (prelog L s) = makedirs d s"
  by (simp add: makedirs_def prelog_def)

lemma convert_prelog:
  "convert e opt dir src fn fnl dl (prelog L s) =
     (fst (convert e opt dir src fn fnl dl s), prelog L (snd (convert e opt dir src fn fnl dl s)))"
  by (cases "makedirs (path_join dir (name src)) (rmtree (path_join dir (name src)) s)")
     (simp_all add: convert_def Let_def rmtree_prelog makedirs_prelog build_glyphs_prelog)

lemma process_source_prelog:
  "process_source e opt dir src (prelog L s) =
     (fst (process_source e opt dir src s), prelog L (snd (process_source e opt dir src s)))"
  by (simp add: process_source_def Let_def download_prelog convert_prelog logging_prelog
      split: prod.splits sum.splits)

lemma process_sources_prelog:
  "process_sources e opt dir srcs (prelog L s) =
     (fst (process_sources e opt dir srcs s), prelog L (snd (process_sources e opt dir srcs s)))"
proof (induction srcs arbitrary: s)
  case Nil
  then show ?case by simp
next
  case (Cons src srcs)
  then show ?case
    by (simp add: process_source_prelog split: prod.splits option.splits)
qed

lemma load_fonts_prelog:
  "load_fonts e opt cfg (prelog L s) =
     (fst (load_fonts e opt cfg s), prelog L (snd (load_fonts e opt cfg s)))"
  by (cases "makedirs (target_dir opt cfg) (logging INFO ''Starting load of fonts'' s)")
     (simp_all add: load_fonts_def Let_def logging_prelog makedirs_prelog process_sources_prelog)

subsection \<open>What a fresh fetch stores\<close>

text \<open>
  C1. After a fresh (status 200) fetch the content file holds the bytes received, but the
  token file does not hold the freshness token of the fetch result: line 92 writes the time
  of the clock in the form \<^verbatim>\<open>%Y-%m-%d %H:%M:%S\<close>. In the scenario of the specification
  (empty target directory, a 200 response with body \<open>B\<close> and the validator
  \<open>Mon, 01 Jan 2024 00:00:00 GMT\<close>) the result carries the validator and the content file
  holds \<open>B\<close>, while the token file holds \<open>2024-01-02 03:04:05\<close>; for a local file with
  modification time \<open>1700000000.5\<close> the token file holds the clock time as well.
\<close>

theorem download_fresh_stores_clock_time:
  "fst (download (example_env (fixed_server 200)) ''https://example.test/Roboto.ttf'' ''roboto''
          default_opts ''fonts'' ''fonts/Roboto.ttf'' ''fonts/Roboto.ttf.lastmod'' empty_state)
     = Inr (Some \<lparr>status_code = 200, content = Some ''B'',
                  last_modified = Some ''Mon, 01 Jan 2024 00:00:00 GMT''\<rparr>)
   \<and> map_option bytes
        (fs (snd (download (example_env (fixed_server 200)) ''https://example.test/Roboto.ttf''
                    ''roboto'' default_opts ''fonts'' ''fonts/Roboto.ttf''
                    ''fonts/Roboto.ttf.lastmod'' empty_state)) ''fonts/Roboto.ttf'')
     = Some ''B''
   \<and> map_option bytes
        (fs (snd (download (example_env (fixed_server 200)) ''https://example.test/Roboto.ttf''
                    ''roboto'' default_opts ''fonts'' ''fonts/Roboto.ttf''
                    ''fonts/Roboto.ttf.lastmod'' empty_state)) ''fonts/Roboto.ttf.lastmod'')
     = Some ''2024-01-02 03:04:05''
   \<and> fst (download (example_env (fixed_server 200)) ''file:///srv/Roboto.ttf'' ''roboto''
          default_opts ''fonts'' ''fonts/Roboto.ttf'' ''fonts/Roboto.ttf.lastmod'' local_state)
     = Inr (Some \<lparr>status_code = 200, content = Some ''L'',
                  last_modified = Some ''1700000000.5''\<rparr>)
   \<and> map_option bytes
        (fs (snd (download (example_env (fixed_server 200)) ''file:///srv/Roboto.ttf''
                    ''roboto'' default_opts ''fonts'' ''fonts/Roboto.ttf''
                    ''fonts/Roboto.ttf.lastmod'' local_state)) ''fonts/Roboto.ttf.lastmod'')
     = Some ''2024-01-02 03:04:05''"
  by (simp add: step_defs example_defs Let_def)

text \<open>
  What the stored clock time does to the next run: a font on the local disk is fetched, and
  fetched again by a second run although the font did not change, because line 48 compares
  the stored text \<open>2024-01-02 03:04:05\<close> with the modification time \<open>1700000000.5\<close>.
\<close>

lemma second_run_on_unchanged_local_file_fetches_again:
  "fst (main (example_env (fixed_server 200)) default_opts local_config
          (snd (main (example_env (fixed_server 200)) default_opts local_config local_state)))
     = None
   \<and> calls (snd (main (example_env (fixed_server 200)) default_opts local_config
          (snd (main (example_env (fixed_server 200)) default_opts local_config local_state))))
     = [(''file:///srv/Roboto.ttf'', [(''If-Modified-Since'', None)]),
        (''file:///srv/Roboto.ttf'', [(''If-Modified-Since'', Some ''2024-01-02 03:04:05'')])]
   \<and> ticks (snd (main (example_env (fixed_server 200)) default_opts local_config
          (snd (main (example_env (fixed_server 200)) default_opts local_config local_state))))
     = 2
   \<and> map_option bytes
        (fs (snd (main (example_env (fixed_server 200)) default_opts local_config
          (snd (main (example_env (fixed_server 200)) default_opts local_config local_state))))
           ''fonts/Roboto.ttf.lastmod'')
     = Some ''2024-01-02 03:04:06''"
  by (simp add: main_defs run_defs path_defs step_defs example_defs Let_def)

subsection \<open>Skipping the network\<close>

text \<open>
  C7. When \<^verbatim>\<open>download\<close> is called with the no-update flag set and both sidecar files
  exist, it returns the cached entry (status 200, the bytes of the content file, the text of
  the token file) and leaves the whole state as it was: no call of the transport, whatever
  the surroundings \<open>e\<close> are.
\<close>

theorem download_no_update_returns_cache:
  assumes "no_update opt"
    and "fs s filename = Some f"
    and "fs s filename_lastmod = Some t"
  shows "download e u nm opt dir filename filename_lastmod s =
           (Inr (Some \<lparr>status_code = 200, content = Some (bytes f),
                        last_modified = Some (bytes t)\<rparr>), s)"
  using assms by (simp add: download_def load_cache_def)

theorem download_no_update_returns_cache_witness:
  "no_update (default_opts\<lparr>no_update := True\<rparr>)
   \<and> fs (cached_state ''B'' ''T'') ''fonts/Roboto.ttf''
       = Some \<lparr>bytes = ''B'', mtime = ''1704164645.0''\<rparr>
   \<and> fs (cached_state ''B'' ''T'') ''fonts/Roboto.ttf.lastmod''
       = Some \<lparr>bytes = ''T'', mtime = ''1704164645.0''\<rparr>
   \<and> download (example_env (fixed_server 500)) ''https://example.test/Roboto.ttf'' ''roboto''
        (default_opts\<lparr>no_update := True\<rparr>) ''fonts'' ''fonts/Roboto.ttf''
        ''fonts/Roboto.ttf.lastmod'' (cached_state ''B'' ''T'')
       = (Inr (Some \<lparr>status_code = 200, content = Some ''B'', last_modified = Some ''T''\<rparr>),
          cached_state ''B'' ''T'')"
proof -
  have a: "no_update (default_opts\<lparr>no_update := True\<rparr>)"
    by simp
  have b: "fs (cached_state ''B'' ''T'') ''fonts/Roboto.ttf''
             = Some \<lparr>bytes = ''B'', mtime = ''1704164645.0''\<rparr>"
    by (simp add: cached_state_def)
  have c: "fs (cached_state ''B'' ''T'') ''fonts/Roboto.ttf.lastmod''
             = Some \<lparr>bytes = ''T'', mtime = ''1704164645.0''\<rparr>"
    by (simp add: cached_state_def)
  from download_no_update_returns_cache [OF a b c] a b c show ?thesis
    by simp
qed

subsection \<open>Deleting the cache\<close>

text \<open>
  C9. When the content file is missing and the token file exists, removing the content file
  raises \<^verbatim>\<open>FileNotFoundError\<close>; the handler swallows it, the removal of the token file is
  never reached, and the deletion block ends normally with the state as it was: the token
  file is still there and \<open>Cache deleted\<close> is not logged.
\<close>

theorem remove_cache_leaves_lone_token:
  assumes "fs s filename = None"
    and "fs s filename_lastmod = Some t"
  shows "os_remove filename s = Inl (FileNotFoundError filename)
         \<and> remove_cache filename filename_lastmod s = (None, s)
         \<and> fs (snd (remove_cache filename filename_lastmod s)) filename_lastmod = Some t"
  using assms by (simp add: remove_cache_def os_remove_def)

theorem remove_cache_leaves_lone_token_witness:
  "fs token_only_state ''fonts/Roboto.ttf'' = None
   \<and> fs token_only_state ''fonts/Roboto.ttf.lastmod'' = Some \<lparr>bytes = ''T'', mtime = ''1.0''\<rparr>
   \<and> os_remove ''fonts/Roboto.ttf'' token_only_state
       = Inl (FileNotFoundError ''fonts/Roboto.ttf'')
   \<and> remove_cache ''fonts/Roboto.ttf'' ''fonts/Roboto.ttf.lastmod'' token_only_state
       = (None, token_only_state)"
proof -
  have a: "fs token_only_state ''fonts/Roboto.ttf'' = None"
    by (simp add: token_only_state_def)
  have b: "fs token_only_state ''fonts/Roboto.ttf.lastmod''
             = Some \<lparr>bytes = ''T'', mtime = ''1.0''\<rparr>"
    by (simp add: token_only_state_def)
  from remove_cache_leaves_lone_token [OF a b] a b show ?thesis
    by simp
qed

text \<open>
  A run reaches the deletion in that state: with the force and the delete-cache flag, a lone
  token file and a server that answers 204, nothing is fetched, the glyph builder is run, and
  the run ends normally with the token file still there and no \<open>Cache deleted\<close> line.
\<close>

lemma lone_token_survives_a_run:
  "fst (main (example_env (fixed_server 204))
          (default_opts\<lparr>force := True, delete_cache := True\<rparr>) single_config token_only_state)
     = None
   \<and> fs (snd (main (example_env (fixed_server 204))
                (default_opts\<lparr>force := True, delete_cache := True\<rparr>) single_config
                token_only_state)) ''fonts/Roboto.ttf.lastmod''
     = Some \<lparr>bytes = ''T'', mtime = ''1.0''\<rparr>
   \<and> logged (snd (main (example_env (fixed_server 204))
                (default_opts\<lparr>force := True, delete_cache := True\<rparr>) single_config
                token_only_state))
     = [(INFO, ''Starting load of fonts''),
        (CRITICAL, ''  Unexpected response code (204''),
        (CRITICAL, ''  Content roboto was not downloaded''),
        (INFO, ''  Import complete'')]"
  by (simp add: main_defs run_defs path_defs step_defs example_defs decimal.simps Let_def)

subsection \<open>A fetch that yields nothing\<close>




subsection \<open>An unexpected status\<close>

text \<open>
  C2, as stated: a remote source answering 404 is logged at critical level and skipped, and
  the run goes on without raising. In the code \<^verbatim>\<open>raise_for_status\<close> (line 54) raises on a
  404 before line 96 is reached: the run of two sources ends with \<^verbatim>\<open>HTTPError\<close> after the
  first request, the second source is never requested, and nothing critical is logged.
\<close>

theorem status_404_ends_the_run:
  "fst (main (example_env (fixed_server 404)) default_opts example_config empty_state)
     = Some (HTTPError 404)
   \<and> calls (snd (main (example_env (fixed_server 404)) default_opts example_config empty_state))
     = [(''https://example.test/Roboto.ttf'', [(''If-Modified-Since'', None)])]
   \<and> logged (snd (main (example_env (fixed_server 404)) default_opts example_config empty_state))
     = [(INFO, ''Starting load of fonts'')]"
  by (simp add: main_defs run_defs path_defs step_defs
      example_defs Let_def)

text \<open>
  C2, amended: for a remote source that is fetched and answered with a status other than
  200 and 304, a status from 400 to 599 raises \<^verbatim>\<open>HTTPError\<close> out of the run after the request
  (the remaining sources are not processed); any other status, when the force flag is not
  set, gives the two critical log lines and the line \<open>did not require updating\<close>, runs no
  command, and the run goes on with the remaining sources.
\<close>

theorem unexpected_status_raises_or_skips:
  assumes "take 7 (url src) \<noteq> ''file://''"
    and "load_cache (content_path e dir src) (token_path e dir src) s = (cd, tok)"
    and "\<not> (no_update opt \<and> cd \<noteq> None)"
    and "remote e (url src) (wire_headers (request_headers opt tok)) = Reply r"
    and "resp_status r \<noteq> 200" and "resp_status r \<noteq> 304"
  shows "(raises_for_status (resp_status r) \<longrightarrow>
            process_sources e opt dir (src # rest) s
              = (Some (HTTPError (resp_status r)),
                 s\<lparr>calls := calls s @ [(url src, request_headers opt tok)]\<rparr>))
       \<and> (\<not> raises_for_status (resp_status r) \<and> \<not> force opt \<longrightarrow>
            process_sources e opt dir (src # rest) s
              = process_sources e opt dir rest
                  (s\<lparr>calls := calls s @ [(url src, request_headers opt tok)],
                     logged := logged s @
                       [(CRITICAL, ''  Unexpected response code ('' @ decimal (resp_status r)),
                        (CRITICAL, ''  Content '' @ name src @ '' was not downloaded''),
                        (INFO, ''  '' @ name src @ '' did not require updating'')]\<rparr>))"
  using assms priv_download_remote [OF assms(1) assms(4), of s]
  by (auto simp add: process_source_def download_def logging_def)

theorem unexpected_status_raises_or_skips_witness:
  "take 7 (url roboto) \<noteq> ''file://''
   \<and> \<not> raises_for_status 204 \<and> raises_for_status 404 \<and> \<not> force default_opts
   \<and> process_sources (example_env (fixed_server 204)) default_opts ''fonts'' [roboto, lato]
        empty_state
       = process_sources (example_env (fixed_server 204)) default_opts ''fonts'' [lato]
           (empty_state
              \<lparr>calls := [(''https://example.test/Roboto.ttf'', [(''If-Modified-Since'', None)])],
               logged := [(CRITICAL, ''  Unexpected response code (204''),
                          (CRITICAL, ''  Content roboto was not downloaded''),
                          (INFO, ''  roboto did not require updating'')]\<rparr>)
   \<and> process_sources (example_env (fixed_server 404)) default_opts ''fonts'' [roboto, lato]
        empty_state
       = (Some (HTTPError 404),
          empty_state
            \<lparr>calls := [(''https://example.test/Roboto.ttf'', [(''If-Modified-Since'', None)])]\<rparr>)"
proof -
  let ?r = "\<lambda>st. \<lparr>resp_status = st, resp_content = ''B'', resp_last_modified = Some validator\<rparr>"
  have u: "take 7 (url roboto) \<noteq> ''file://''"
    by (simp add: roboto_def)
  have lc: "load_cache (content_path (example_env (fixed_server st)) ''fonts'' roboto)
              (token_path (example_env (fixed_server st)) ''fonts'' roboto) empty_state
            = (None, None)" for st
    by (simp add: load_cache_def empty_state_def)
  have n: "\<not> (no_update default_opts \<and> (None :: DownloadResult option) \<noteq> None)"
    by simp
  have rp: "remote (example_env (fixed_server st)) (url roboto)
              (wire_headers (request_headers default_opts None)) = Reply (?r st)" for st
    by (simp add: example_env_def fixed_server_def)
  have s: "resp_status (?r 204) \<noteq> 200" "resp_status (?r 204) \<noteq> 304"
      "resp_status (?r 404) \<noteq> 200" "resp_status (?r 404) \<noteq> 304"
    by simp_all
  have f: "\<not> raises_for_status 204" "raises_for_status 404" "\<not> force default_opts"
    by (simp_all add: raises_for_status_def default_opts_def)
  have h: "request_headers default_opts None = [(''If-Modified-Since'', None)]"
    by (simp add: request_headers_def default_opts_def)
  have d: "decimal 204 = ''204''"
    by (simp add: decimal.simps digit_def)
  from unexpected_status_raises_or_skips [OF u lc n rp s(1) s(2), of "[lato]"]
    unexpected_status_raises_or_skips [OF u lc n rp s(3) s(4), of "[lato]"] u f
  show ?thesis
    by (simp add: h d roboto_def empty_state_def)
qed

subsection \<open>The second run\<close>

text \<open>
  C3. On the second run with the remote unchanged the stored token is sent, the answer is
  304, nothing is rewritten, the token returned is the token supplied, and the conversion is
  skipped. The code does not skip the conversion. With the cache entry (\<open>B\<close>, validator) on
  disk and a server that answers 304 to the validator, \<^verbatim>\<open>download\<close> sends the validator, gets
  304 and returns the cached entry; that is not \<^verbatim>\<open>None\<close>, so the test of line 164 does not
  skip: the glyph builder is run and \<open>did not require updating\<close> is not logged. The same in
  two whole runs against a server that answers 304 to the token the first run stored: the
  second run rewrites nothing (the clock is not read again) and runs the builder a second
  time.
\<close>

theorem not_modified_still_converts:
  "fst (priv_download (example_env (validating_server validator)) (url roboto)
          [(''If-Modified-Since'', Some validator)] (cached_state ''B'' validator))
     = Inr \<lparr>status_code = 304, content = Some [], last_modified = Some validator\<rparr>
   \<and> fst (download (example_env (validating_server validator)) (url roboto) (name roboto)
            default_opts ''fonts'' ''fonts/Roboto.ttf'' ''fonts/Roboto.ttf.lastmod''
            (cached_state ''B'' validator))
     = Inr (Some \<lparr>status_code = 200, content = Some ''B'', last_modified = Some validator\<rparr>)
   \<and> tool_runs (snd (process_source (example_env (validating_server validator)) default_opts
                       ''fonts'' roboto (cached_state ''B'' validator)))
     = [[''npx'', ''-p'', ''fontnik'', ''build-glyphs'', ''fonts/Roboto.ttf'', ''fonts/roboto'']]
   \<and> logged (snd (process_source (example_env (validating_server validator)) default_opts
                    ''fonts'' roboto (cached_state ''B'' validator)))
     = [(INFO, ''  Import complete'')]
   \<and> calls (snd (main (example_env (validating_server ''2024-01-02 03:04:05'')) default_opts
                   single_config
                   (snd (main (example_env (validating_server ''2024-01-02 03:04:05''))
                           default_opts single_config empty_state))))
     = [(''https://example.test/Roboto.ttf'', [(''If-Modified-Since'', None)]),
        (''https://example.test/Roboto.ttf'',
         [(''If-Modified-Since'', Some ''2024-01-02 03:04:05'')])]
   \<and> ticks (snd (main (example_env (validating_server ''2024-01-02 03:04:05'')) default_opts
                   single_config
                   (snd (main (example_env (validating_server ''2024-01-02 03:04:05''))
                           default_opts single_config empty_state))))
     = 1
   \<and> tool_runs (snd (main (example_env (validating_server ''2024-01-02 03:04:05''))
                       default_opts single_config
                       (snd (main (example_env (validating_server ''2024-01-02 03:04:05''))
                               default_opts single_config empty_state))))
     = [[''npx'', ''-p'', ''fontnik'', ''build-glyphs'', ''fonts/Roboto.ttf'', ''fonts/roboto''],
        [''npx'', ''-p'', ''fontnik'', ''build-glyphs'', ''fonts/Roboto.ttf'', ''fonts/roboto'']]
   \<and> logged (snd (main (example_env (validating_server ''2024-01-02 03:04:05'')) default_opts
                    single_config
                    (snd (main (example_env (validating_server ''2024-01-02 03:04:05''))
                            default_opts single_config empty_state))))
     = [(INFO, ''Starting load of fonts''),
        (INFO, ''  Download complete (1 bytes)''),
        (INFO, ''  Import complete''),
        (INFO, ''Starting load of fonts''),
        (INFO, ''  Import complete'')]"
  by (simp add: main_defs run_defs path_defs step_defs example_defs decimal.simps Let_def)

text \<open>
  The path through the code in general: with both sidecar files and the default flags, the
  text of the token file is sent; on a 304 answer nothing but the record of the call changes
  and the cached entry is returned with the token supplied; the source then goes on into
  the conversion, whose command is run when the working directory can be made.
\<close>

lemma not_modified_returns_cache_then_converts:
  assumes "\<not> force opt" and "\<not> no_update opt"
    and "fs s (content_path e dir src) = Some f"
    and "fs s (token_path e dir src) = Some t"
    and "fst (priv_download e (url src) [(''If-Modified-Since'', Some (bytes t))] s) = Inr rsp"
    and "status_code rsp = 304"
  shows "download e (url src) (name src) opt dir (content_path e dir src) (token_path e dir src) s
           = (Inr (Some \<lparr>status_code = 200, content = Some (bytes f),
                         last_modified = Some (bytes t)\<rparr>),
              s\<lparr>calls := calls s @ [(url src, [(''If-Modified-Since'', Some (bytes t))])]\<rparr>)
       \<and> process_source e opt dir src s
           = convert e opt dir src (content_path e dir src) (token_path e dir src)
               (Some \<lparr>status_code = 200, content = Some (bytes f),
                      last_modified = Some (bytes t)\<rparr>)
               (s\<lparr>calls := calls s @ [(url src, [(''If-Modified-Since'', Some (bytes t))])]\<rparr>)"
proof -
  let ?h = "[(''If-Modified-Since'', Some (bytes t))]"
  let ?s1 = "s\<lparr>calls := calls s @ [(url src, ?h)]\<rparr>"
  have p: "priv_download e (url src) ?h s = (Inr rsp, ?s1)"
    using assms(5) priv_download_state [of e "url src" ?h s]
    by (metis prod.collapse)
  have d: "download e (url src) (name src) opt dir (content_path e dir src) (token_path e dir src) s
           = (Inr (Some \<lparr>status_code = 200, content = Some (bytes f),
                         last_modified = Some (bytes t)\<rparr>), ?s1)"
    using assms(1-4,6) p by (simp add: download_def load_cache_def request_headers_def)
  then show ?thesis
    by (simp add: process_source_def)
qed

subsection \<open>Who writes the sidecar files\<close>

text \<open>
  C5, as stated: \<^verbatim>\<open>download\<close> reads and writes no file itself. It does both: started on an
  empty directory with a server that answers 200, it leaves the content file and the token
  file behind (lines 89 to 92).
\<close>

theorem download_writes_sidecar_files:
  "fs empty_state ''fonts/Roboto.ttf'' = None
   \<and> fs empty_state ''fonts/Roboto.ttf.lastmod'' = None
   \<and> fs (snd (download (example_env (fixed_server 200)) (url roboto) (name roboto) default_opts
                ''fonts'' ''fonts/Roboto.ttf'' ''fonts/Roboto.ttf.lastmod'' empty_state))
        ''fonts/Roboto.ttf''
       = Some \<lparr>bytes = ''B'', mtime = ''1704164645.0''\<rparr>
   \<and> fs (snd (download (example_env (fixed_server 200)) (url roboto) (name roboto) default_opts
                ''fonts'' ''fonts/Roboto.ttf'' ''fonts/Roboto.ttf.lastmod'' empty_state))
        ''fonts/Roboto.ttf.lastmod''
       = Some \<lparr>bytes = ''2024-01-02 03:04:05'', mtime = ''1704164645.0''\<rparr>"
  by (simp add: step_defs example_defs Let_def)

text \<open>
  C5, amended: \<^verbatim>\<open>download\<close> itself loads the two sidecar files and, on a fresh outcome (the
  transport is asked and answers 200 with content), itself writes the content file and then
  the token file; when it returns the cached entry without asking, and when the transport
  raises or answers any other status, it leaves every file as it was.
\<close>

theorem download_writes_exactly_when_fresh:
  assumes "load_cache fn fnl s = (cd, tok)"
  shows "(no_update opt \<and> cd \<noteq> None \<longrightarrow>
            fs (snd (download e u nm opt dir fn fnl s)) = fs s)
       \<and> (\<forall>rsp c. \<not> (no_update opt \<and> cd \<noteq> None)
              \<and> fst (priv_download e u (request_headers opt tok) s) = Inr rsp
              \<and> status_code rsp = 200 \<and> content rsp = Some c \<longrightarrow>
            fs (snd (download e u nm opt dir fn fnl s))
              = (fs s)(fn \<mapsto> \<lparr>bytes = c, mtime = stamp (clock e (ticks s))\<rparr>,
                       fnl \<mapsto> \<lparr>bytes = strftime (wall (clock e (ticks s))),
                                 mtime = stamp (clock e (ticks s))\<rparr>))
       \<and> ((\<forall>rsp. fst (priv_download e u (request_headers opt tok) s) = Inr rsp
                \<longrightarrow> status_code rsp \<noteq> 200) \<longrightarrow>
            fs (snd (download e u nm opt dir fn fnl s)) = fs s)"
proof -
  let ?p = "priv_download e u (request_headers opt tok) s"
  let ?s1 = "s\<lparr>calls := calls s @ [(u, request_headers opt tok)]\<rparr>"
  have p: "?p = (fst ?p, ?s1)"
    using priv_download_state [of e u "request_headers opt tok" s] by (metis prod.collapse)
  show ?thesis
  proof (cases "no_update opt \<and> cd \<noteq> None")
    case True
    then show ?thesis using download_skip [OF assms, of opt e u nm dir] by simp
  next
    case False
    note d = download_fetch [OF assms False p, of nm dir]
    show ?thesis
      using False by (cases "fst ?p") (auto simp add: d split: option.splits)
  qed
qed

theorem download_writes_exactly_when_fresh_witness:
  "load_cache ''fonts/Roboto.ttf'' ''fonts/Roboto.ttf.lastmod'' empty_state = (None, None)
   \<and> fs (snd (download (example_env (fixed_server 200)) (url roboto) (name roboto) default_opts
                ''fonts'' ''fonts/Roboto.ttf'' ''fonts/Roboto.ttf.lastmod'' empty_state))
       = (fs empty_state)
           (''fonts/Roboto.ttf'' \<mapsto> \<lparr>bytes = ''B'', mtime = ''1704164645.0''\<rparr>,
            ''fonts/Roboto.ttf.lastmod'' \<mapsto>
              \<lparr>bytes = ''2024-01-02 03:04:05'', mtime = ''1704164645.0''\<rparr>)
   \<and> fs (snd (download (example_env (fixed_server 304)) (url roboto) (name roboto) default_opts
                ''fonts'' ''fonts/Roboto.ttf'' ''fonts/Roboto.ttf.lastmod'' empty_state))
       = fs empty_state"
proof -
  let ?r = "\<lambda>st. \<lparr>status_code = st, content = Some ''B'', last_modified = Some validator\<rparr>"
  have lc: "load_cache ''fonts/Roboto.ttf'' ''fonts/Roboto.ttf.lastmod'' empty_state
              = (None, None)"
    by (simp add: load_cache_def empty_state_def)
  have p: "fst (priv_download (example_env (fixed_server st)) (url roboto)
                  (request_headers default_opts None) empty_state)
             = (if raises_for_status st then Inl (HTTPError st) else Inr (?r st))" for st
    by (simp add: step_defs example_defs Let_def)
  have n: "\<not> (no_update default_opts \<and> (None :: DownloadResult option) \<noteq> None)"
    by simp
  have fresh: "fs (snd (download (example_env (fixed_server 200)) (url roboto) (name roboto)
                default_opts ''fonts'' ''fonts/Roboto.ttf'' ''fonts/Roboto.ttf.lastmod''
                empty_state))
       = (fs empty_state)
           (''fonts/Roboto.ttf'' \<mapsto>
              \<lparr>bytes = ''B'',
                 mtime = stamp (clock (example_env (fixed_server 200)) (ticks empty_state))\<rparr>,
            ''fonts/Roboto.ttf.lastmod'' \<mapsto>
              \<lparr>bytes = strftime (wall (clock (example_env (fixed_server 200))
                                          (ticks empty_state))),
                 mtime = stamp (clock (example_env (fixed_server 200)) (ticks empty_state))\<rparr>)"
    using download_writes_exactly_when_fresh [OF lc, of default_opts
        "example_env (fixed_server 200)" "url roboto" "name roboto" "''fonts''"]
      n p [of 200]
    by (simp add: raises_for_status_def)
  have stale: "fs (snd (download (example_env (fixed_server 304)) (url roboto) (name roboto)
                default_opts ''fonts'' ''fonts/Roboto.ttf'' ''fonts/Roboto.ttf.lastmod''
                empty_state)) = fs empty_state"
    using download_writes_exactly_when_fresh [OF lc, of default_opts
        "example_env (fixed_server 304)" "url roboto" "name roboto" "''fonts''"]
      p [of 304]
    by (simp add: raises_for_status_def)
  from lc fresh stale show ?thesis
    by (simp add: example_defs strftime_def pad2_def pad4_def digit_def)
qed

subsection \<open>Forcing\<close>

text \<open>
  C6. Let the run be started with the force flag; \<^verbatim>\<open>main\<close> hands \<^verbatim>\<open>download\<close> the options
  after line 143. Then \<^verbatim>\<open>download\<close> always asks the transport, with an empty headers
  dictionary, so no \<^verbatim>\<open>If-Modified-Since\<close> goes on the wire; and the result is fresh
  whatever token is stored: for a local file that exists, status 200 with its bytes and its
  modification time, and for a remote source that the server serves on an unconditional
  request, status 200 with the bytes of the response.
\<close>

theorem forced_fetch_is_unconditional_and_fresh:
  assumes "force opt0"
  shows "calls (snd (download e u nm (fst (override_flags opt0 s0)) dir fn fnl s))
           = calls s @ [(u, [])]
       \<and> map_of (wire_headers []) ''If-Modified-Since'' = None
       \<and> (\<forall>f. take 7 u = ''file://'' \<and> fs s (drop 7 u) = Some f \<longrightarrow>
            fst (download e u nm (fst (override_flags opt0 s0)) dir fn fnl s)
              = Inr (Some \<lparr>status_code = 200, content = Some (bytes f),
                           last_modified = Some (mtime f)\<rparr>))
       \<and> (\<forall>r. take 7 u \<noteq> ''file://'' \<and> remote e u (wire_headers []) = Reply r
              \<and> resp_status r = 200 \<longrightarrow>
            fst (download e u nm (fst (override_flags opt0 s0)) dir fn fnl s)
              = Inr (Some \<lparr>status_code = 200, content = Some (resp_content r),
                           last_modified = resp_last_modified r\<rparr>))"
proof -
  let ?o = "fst (override_flags opt0 s0)"
  have f: "force ?o" and n: "\<not> no_update ?o"
    using assms by (simp_all add: override_flags_def)
  obtain cd tok where lc: "load_cache fn fnl s = (cd, tok)"
    by (cases "load_cache fn fnl s")
  have h: "request_headers ?o tok = []"
    using f by (simp add: request_headers_def)
  let ?p = "priv_download e u [] s"
  have p: "priv_download e u (request_headers ?o tok) s = (fst ?p, snd ?p)"
    by (simp add: h)
  have nn: "\<not> (no_update ?o \<and> cd \<noteq> None)"
    using n by simp
  note d = download_fetch [OF lc nn p, of nm dir]
  have c: "calls (snd (download e u nm ?o dir fn fnl s)) = calls s @ [(u, [])]"
    by (simp add: d priv_download_state logging_def split: sum.splits option.splits)
  have w: "map_of (wire_headers []) ''If-Modified-Since'' = None"
    by (simp add: wire_headers_def)
  have a: "fst (download e u nm ?o dir fn fnl s)
              = Inr (Some \<lparr>status_code = 200, content = Some (bytes f),
                           last_modified = Some (mtime f)\<rparr>)"
    if "take 7 u = ''file://''" "fs s (drop 7 u) = Some f" for f
  proof -
    have "fst ?p = Inr \<lparr>status_code = 200, content = Some (bytes f), last_modified = Some (mtime f)\<rparr>"
      using that by (simp add: priv_download_def read_source_def Let_def)
    then show ?thesis by (simp add: d)
  qed
  have b: "fst (download e u nm ?o dir fn fnl s)
              = Inr (Some \<lparr>status_code = 200, content = Some (resp_content r),
                           last_modified = resp_last_modified r\<rparr>)"
    if "take 7 u \<noteq> ''file://''" "remote e u (wire_headers []) = Reply r" "resp_status r = 200" for r
  proof -
    have "fst ?p = Inr \<lparr>status_code = 200, content = Some (resp_content r),
                        last_modified = resp_last_modified r\<rparr>"
      using that by (simp add: priv_download_def Let_def raises_for_status_def)
    then show ?thesis by (simp add: d)
  qed
  from c w a b show ?thesis by blast
qed

theorem forced_fetch_is_unconditional_and_fresh_witness:
  "force (default_opts\<lparr>force := True, no_update := True\<rparr>)
   \<and> fs local_cached_state ''fonts/Roboto.ttf.lastmod''
       = Some \<lparr>bytes = ''1700000000.5'', mtime = ''1704164645.0''\<rparr>
   \<and> fs local_cached_state (drop 7 ''file:///srv/Roboto.ttf'')
       = Some \<lparr>bytes = ''L'', mtime = ''1700000000.5''\<rparr>
   \<and> calls (snd (download (example_env (fixed_server 500)) ''file:///srv/Roboto.ttf'' ''roboto''
                   (fst (override_flags (default_opts\<lparr>force := True, no_update := True\<rparr>)
                           empty_state))
                   ''fonts'' ''fonts/Roboto.ttf'' ''fonts/Roboto.ttf.lastmod''
                   local_cached_state))
       = [(''file:///srv/Roboto.ttf'', [])]
   \<and> fst (download (example_env (fixed_server 500)) ''file:///srv/Roboto.ttf'' ''roboto''
            (fst (override_flags (default_opts\<lparr>force := True, no_update := True\<rparr>)
                    empty_state))
            ''fonts'' ''fonts/Roboto.ttf'' ''fonts/Roboto.ttf.lastmod'' local_cached_state)
       = Inr (Some \<lparr>status_code = 200, content = Some ''L'',
                    last_modified = Some ''1700000000.5''\<rparr>)
   \<and> fst (download (example_env (fixed_server 200)) ''https://example.test/Roboto.ttf''
            ''roboto''
            (fst (override_flags (default_opts\<lparr>force := True, no_update := True\<rparr>)
                    empty_state))
            ''fonts'' ''fonts/Roboto.ttf'' ''fonts/Roboto.ttf.lastmod''
            (cached_state ''B'' validator))
       = Inr (Some \<lparr>status_code = 200, content = Some ''B'', last_modified = Some validator\<rparr>)"
proof -
  let ?o = "default_opts\<lparr>force := True, no_update := True\<rparr>"
  let ?f = "\<lparr>bytes = ''L'', mtime = ''1700000000.5''\<rparr>"
  let ?r = "\<lparr>resp_status = 200, resp_content = ''B'', resp_last_modified = Some validator\<rparr>"
  have a: "force ?o"
    by simp
  have t: "fs local_cached_state ''fonts/Roboto.ttf.lastmod''
             = Some \<lparr>bytes = ''1700000000.5'', mtime = ''1704164645.0''\<rparr>"
    by (simp add: local_cached_state_def)
  have u: "take 7 ''file:///srv/Roboto.ttf'' = ''file://''"
    by simp
  have f: "fs local_cached_state (drop 7 ''file:///srv/Roboto.ttf'') = Some ?f"
    by (simp add: local_cached_state_def)
  have v: "take 7 ''https://example.test/Roboto.ttf'' \<noteq> ''file://''"
    by simp
  have r: "remote (example_env (fixed_server 200)) ''https://example.test/Roboto.ttf''
             (wire_headers []) = Reply ?r"
    by (simp add: example_env_def fixed_server_def)
  note l = forced_fetch_is_unconditional_and_fresh [OF a, of "example_env (fixed_server 500)"
      "''file:///srv/Roboto.ttf''" "''roboto''" empty_state "''fonts''" "''fonts/Roboto.ttf''"
      "''fonts/Roboto.ttf.lastmod''" local_cached_state]
  note m = forced_fetch_is_unconditional_and_fresh [OF a, of "example_env (fixed_server 200)"
      "''https://example.test/Roboto.ttf''" "''roboto''" empty_state "''fonts''"
      "''fonts/Roboto.ttf''" "''fonts/Roboto.ttf.lastmod''" "cached_state ''B'' validator"]
  have c1: "calls (snd (download (example_env (fixed_server 500)) ''file:///srv/Roboto.ttf''
                   ''roboto'' (fst (override_flags ?o empty_state))
                   ''fonts'' ''fonts/Roboto.ttf'' ''fonts/Roboto.ttf.lastmod''
                   local_cached_state))
       = [(''file:///srv/Roboto.ttf'', [])]"
    using l by (simp add: local_cached_state_def empty_state_def)
  have c2: "fst (download (example_env (fixed_server 500)) ''file:///srv/Roboto.ttf'' ''roboto''
            (fst (override_flags ?o empty_state))
            ''fonts'' ''fonts/Roboto.ttf'' ''fonts/Roboto.ttf.lastmod'' local_cached_state)
       = Inr (Some \<lparr>status_code = 200, content = Some (bytes ?f),
                    last_modified = Some (mtime ?f)\<rparr>)"
    using l u f by blast
  have c3: "fst (download (example_env (fixed_server 200)) ''https://example.test/Roboto.ttf''
            ''roboto'' (fst (override_flags ?o empty_state))
            ''fonts'' ''fonts/Roboto.ttf'' ''fonts/Roboto.ttf.lastmod''
            (cached_state ''B'' validator))
       = Inr (Some \<lparr>status_code = 200, content = Some (resp_content ?r),
                    last_modified = resp_last_modified ?r\<rparr>)"
  proof -
    have "resp_status ?r = 200" by simp
    with m v r show ?thesis by blast
  qed
  from a t f c1 c2 c3 show ?thesis
    by simp
qed

subsection \<open>When a cache entry counts\<close>



subsection \<open>Both flags\<close>

text \<open>
  C10, as stated: a run with both the force and the no-update flag behaves, as far as can be
  observed, like the run with the force flag alone. The log output differs: line 145 writes
  a warning that the run with the force flag alone does not write.
\<close>

theorem both_flags_log_a_warning:
  "emitted (default_opts\<lparr>force := True, no_update := True\<rparr>)
     (snd (main (example_env (fixed_server 200))
             (default_opts\<lparr>force := True, no_update := True\<rparr>) local_config local_state))
     = [(WARNING, ''Force (-f) flag overrides --no-update flag''),
        (INFO, ''Starting load of fonts''),
        (INFO, ''  Download complete (1 bytes)''),
        (INFO, ''  Import complete'')]
   \<and> emitted (default_opts\<lparr>force := True\<rparr>)
       (snd (main (example_env (fixed_server 200)) (default_opts\<lparr>force := True\<rparr>)
               local_config local_state))
     = [(INFO, ''Starting load of fonts''),
        (INFO, ''  Download complete (1 bytes)''),
        (INFO, ''  Import complete'')]"
  by (simp add: emitted_def log_level_def main_defs run_defs path_defs step_defs example_defs
      decimal.simps Let_def)

text \<open>
  C10, amended: a run started with both the force and the no-update flag clears the
  no-update flag before the first source: it is the run with the force flag alone, started
  after the warning that announces the override. Outcome, files, transport calls, commands
  run, members extracted and clock readings of the two runs are the same, and so are their
  logs but for that one warning in front of the lines of the run.
\<close>

theorem force_with_no_update_runs_as_force_alone:
  assumes "force opt" and "no_update opt"
  shows "main e opt cfg s
           = main e (opt\<lparr>no_update := False\<rparr>) cfg
               (logging WARNING ''Force (-f) flag overrides --no-update flag'' s)
       \<and> fst (main e opt cfg s) = fst (main e (opt\<lparr>no_update := False\<rparr>) cfg s)
       \<and> fs (snd (main e opt cfg s)) = fs (snd (main e (opt\<lparr>no_update := False\<rparr>) cfg s))
       \<and> calls (snd (main e opt cfg s)) = calls (snd (main e (opt\<lparr>no_update := False\<rparr>) cfg s))
       \<and> tool_runs (snd (main e opt cfg s))
           = tool_runs (snd (main e (opt\<lparr>no_update := False\<rparr>) cfg s))
       \<and> extracted (snd (main e opt cfg s))
           = extracted (snd (main e (opt\<lparr>no_update := False\<rparr>) cfg s))
       \<and> ticks (snd (main e opt cfg s)) = ticks (snd (main e (opt\<lparr>no_update := False\<rparr>) cfg s))
       \<and> (\<exists>R. logged (snd (main e (opt\<lparr>no_update := False\<rparr>) cfg s)) = logged s @ R
              \<and> logged (snd (main e opt cfg s))
                  = logged s @ (WARNING, ''Force (-f) flag overrides --no-update flag'') # R)"
proof -
  let ?o = "opt\<lparr>no_update := False\<rparr>"
  let ?w = "(WARNING, ''Force (-f) flag overrides --no-update flag'')"
  let ?s0 = "s\<lparr>logged := []\<rparr>"
  let ?run = "load_fonts e ?o cfg"
  have a: "main e opt cfg s = ?run (prelog (logged s @ [?w]) ?s0)"
    using assms by (simp add: main_def override_flags_def logging_def prelog_def)
  have b: "main e ?o cfg s = ?run (prelog (logged s) ?s0)"
    by (simp add: main_def override_flags_def prelog_def)
  have c: "main e ?o cfg (logging WARNING ''Force (-f) flag overrides --no-update flag'' s)
             = ?run (prelog (logged s @ [?w]) ?s0)"
    by (simp add: main_def override_flags_def logging_def prelog_def)
  have A: "main e opt cfg s = (fst (?run ?s0), prelog (logged s @ [?w]) (snd (?run ?s0)))"
    using a by (simp only: load_fonts_prelog)
  have B: "main e ?o cfg s = (fst (?run ?s0), prelog (logged s) (snd (?run ?s0)))"
    using b by (simp only: load_fonts_prelog)
  have C: "main e opt cfg s
             = main e ?o cfg (logging WARNING ''Force (-f) flag overrides --no-update flag'' s)"
    using a c by simp
  have "logged (snd (main e ?o cfg s)) = logged s @ logged (snd (?run ?s0))
        \<and> logged (snd (main e opt cfg s)) = logged s @ ?w # logged (snd (?run ?s0))"
    by (simp add: A B prelog_simps)
  then have D: "\<exists>R. logged (snd (main e ?o cfg s)) = logged s @ R
              \<and> logged (snd (main e opt cfg s)) = logged s @ ?w # R"
    by blast
  have E: "fst (main e opt cfg s) = fst (main e ?o cfg s)"
      "fs (snd (main e opt cfg s)) = fs (snd (main e ?o cfg s))"
      "calls (snd (main e opt cfg s)) = calls (snd (main e ?o cfg s))"
      "tool_runs (snd (main e opt cfg s)) = tool_runs (snd (main e ?o cfg s))"
      "extracted (snd (main e opt cfg s)) = extracted (snd (main e ?o cfg s))"
      "ticks (snd (main e opt cfg s)) = ticks (snd (main e ?o cfg s))"
    by (simp_all add: A B prelog_simps)
  from C D E show ?thesis
    by (intro conjI) (simp_all only:)
qed

theorem force_with_no_update_runs_as_force_alone_witness:
  "force (default_opts\<lparr>force := True, no_update := True\<rparr>)
   \<and> no_update (default_opts\<lparr>force := True, no_update := True\<rparr>)
   \<and> main (example_env (fixed_server 200))
        (default_opts\<lparr>force := True, no_update := True\<rparr>) example_config
        (cached_state ''B'' validator)
       = main (example_env (fixed_server 200))
           (default_opts\<lparr>force := True, no_update := False\<rparr>) example_config
           (logging WARNING ''Force (-f) flag overrides --no-update flag''
              (cached_state ''B'' validator))
   \<and> calls (snd (main (example_env (fixed_server 200))
                   (default_opts\<lparr>force := True, no_update := True\<rparr>) example_config
                   (cached_state ''B'' validator)))
       = calls (snd (main (example_env (fixed_server 200))
                       (default_opts\<lparr>force := True, no_update := False\<rparr>) example_config
                       (cached_state ''B'' validator)))
   \<and> calls (snd (main (example_env (fixed_server 200))
                   (default_opts\<lparr>force := True, no_update := False\<rparr>) example_config
                   (cached_state ''B'' validator)))
       = [(''https://example.test/Roboto.ttf'', []), (''https://example.test/Lato.ttf'', [])]"
proof -
  let ?o = "default_opts\<lparr>force := True, no_update := True\<rparr>"
  have a: "force ?o" and b: "no_update ?o"
    by simp_all
  have o: "?o\<lparr>no_update := False\<rparr> = default_opts\<lparr>force := True, no_update := False\<rparr>"
    by simp
  have c: "calls (snd (main (example_env (fixed_server 200))
                   (default_opts\<lparr>force := True, no_update := False\<rparr>) example_config
                   (cached_state ''B'' validator)))
       = [(''https://example.test/Roboto.ttf'', []), (''https://example.test/Lato.ttf'', [])]"
    by (simp add: main_defs run_defs path_defs step_defs
        example_defs Let_def)
  note k = force_with_no_update_runs_as_force_alone [OF a b, of "example_env (fixed_server 200)"
      example_config "cached_state ''B'' validator", unfolded o]
  have m: "main (example_env (fixed_server 200)) ?o example_config (cached_state ''B'' validator)
       = main (example_env (fixed_server 200))
           (default_opts\<lparr>force := True, no_update := False\<rparr>) example_config
           (logging WARNING ''Force (-f) flag overrides --no-update flag''
              (cached_state ''B'' validator))"
    using k by (rule conjunct1)
  have n: "calls (snd (main (example_env (fixed_server 200)) ?o example_config
                        (cached_state ''B'' validator)))
       = calls (snd (main (example_env (fixed_server 200))
                       (default_opts\<lparr>force := True, no_update := False\<rparr>) example_config
                       (cached_state ''B'' validator)))"
    using k by blast
  from a b m n c show ?thesis
    by blast
qed

end
